theory Spec2Isabelle
  imports Complex_Main "HOL-Library.Word" "HOL-Library.Sublist"
begin

section \<open>Chart image analyzer: data model\<close>

text \<open>
  A shallow embedding of \<^verbatim>\<open>ChartImageAnalyzer\<close> (python-backend/chart_analyzer.py).

  Conventions of the embedding.
  \<^item> Python floats are modelled as \<^typ>\<open>real\<close>: arithmetic and comparisons are exact, rounding
    errors of IEEE doubles are not represented.
  \<^item> A Python dictionary built by one analyzer is a record; a key that some shape of the
    dictionary lacks is an \<^typ>\<open>'a option\<close> field, and \<^verbatim>\<open>d.get(k, default)\<close> is
    \<open>dict_get\<close>.
  \<^item> The text fields \<^verbatim>\<open>reasoning\<close> and \<^verbatim>\<open>analysis_details\<close> of a signal and the
    \<^verbatim>\<open>error\<close> texts of degraded dictionaries are left out; a degraded dictionary is
    recognised by its missing keys. Console output and logging are left out.
  \<^item> OpenCV, PIL and base64 are libraries outside the repository. A decoded image is
    represented by its shape and by what the OpenCV calls of the analyzers return on it
    (\<open>None\<close> where the call raises).
\<close>

definition dict_get :: "'a option \<Rightarrow> 'a \<Rightarrow> 'a" where
  "dict_get v d = (case v of None \<Rightarrow> d | Some x \<Rightarrow> x)"

record trend_rec =
  trend :: "string option"
  trend_confidence :: "real option"
  green_ratio :: "real option"
  red_ratio :: "real option"
  dominant_color :: "string option"

record markers_rec =
  blue_lines :: nat
  purple_zones :: nat
  red_lines :: nat
  yellow_lines :: nat
  horizontal_levels_count :: nat
  blue_density :: real
  purple_density :: real

record trade_params =
  stop_loss_percent :: "real option"
  take_profit_percent :: "real option"
  levels_above :: "nat option"
  levels_below :: "nat option"
  trade_direction :: "string option"

record existing_rec =
  has_existing_trade :: "bool option"
  trade_type :: "string option"
  markers_detected :: "markers_rec option"
  trade_parameters :: "trade_params option"
  trade_confidence :: "real option"
  action :: "string option"

record patterns_rec =
  pattern_detected :: "bool option"
  pattern_type :: "string option"
  pattern_confidence :: "real option"
  candlestick_density :: "real option"

record sr_level =
  sr_y_position :: int
  sr_length :: real
  sr_strength :: real

record levels_rec =
  levels_detected :: "nat option"
  strong_levels :: "sr_level list option"
  has_support_resistance :: "bool option"

record price_rec =
  trend_direction :: "string option"
  trend_strength :: "real option"
  upward_movements :: "nat option"
  downward_movements :: "nat option"

record volume_rec =
  volume_present :: "bool option"
  volume_pattern :: "string option"
  volume_density :: "real option"

record analysis =
  trend_analysis :: trend_rec
  existing_trade :: existing_rec
  candlestick_patterns :: patterns_rec
  support_resistance :: levels_rec
  price_action :: price_rec
  volume_analysis :: volume_rec

record trading_signal =
  isSignal :: bool
  confidence :: real
  symbol :: string
  side :: string
  entryPrice :: "real option"
  stopLoss :: "real option"
  takeProfit :: "real option"
  stopLossPercent :: real
  takeProfitPercent :: real
  quantity :: real
  leverage :: int
  signal_method :: string
  trade_mode :: "string option"

section \<open>Signal fusion\<close>

text \<open>
  \<^verbatim>\<open>_generate_trading_signal\<close>, the body of its \<^verbatim>\<open>try\<close> block. The running pair
  \<open>(signal_strength, signal_direction)\<close> is threaded through the four weighted steps in the
  order of the source.
\<close>

definition copy_signal :: "real \<Rightarrow> real \<Rightarrow> trading_signal" where
  "copy_signal sl tp =
     \<lparr> isSignal = True, confidence = 0.95, symbol = ''ETH'', side = ''copy'',
       entryPrice = None, stopLoss = None, takeProfit = None,
       stopLossPercent = sl, takeProfitPercent = tp,
       quantity = 0.1, leverage = 1,
       signal_method = ''copy_existing_trade'', trade_mode = Some ''copy_existing'' \<rparr>"

definition follow_signal :: trading_signal where
  "follow_signal =
     \<lparr> isSignal = True, confidence = 0.9, symbol = ''ETH'', side = ''follow'',
       entryPrice = None, stopLoss = None, takeProfit = None,
       stopLossPercent = 0.5, takeProfitPercent = 1.5,
       quantity = 0.1, leverage = 1,
       signal_method = ''existing_trade_follow'', trade_mode = Some ''follow_existing'' \<rparr>"

definition trend_step :: "trend_rec \<Rightarrow> real \<times> string option \<Rightarrow> real \<times> string option" where
  "trend_step t st =
     (let trend_type = dict_get (trend t) ''neutral'';
          trend_conf = dict_get (trend_confidence t) 0.5
      in if trend_type = ''bearish'' then (fst st + 0.4 * trend_conf, Some ''sell'')
         else if trend_type = ''bullish'' then (fst st + 0.4 * trend_conf, Some ''buy'')
         else st)"

definition pattern_step :: "patterns_rec \<Rightarrow> real \<times> string option \<Rightarrow> real \<times> string option" where
  "pattern_step p st =
     (if dict_get (pattern_detected p) False
      then (fst st + 0.3 * dict_get (pattern_confidence p) 0.5, snd st)
      else st)"

definition price_step :: "price_rec \<Rightarrow> real \<times> string option \<Rightarrow> real \<times> string option" where
  "price_step pa st =
     (let price_direction = dict_get (trend_direction pa) ''unclear'';
          price_strength = dict_get (trend_strength pa) 0.5
      in if price_direction = ''downward''
         then (fst st + 0.2 * price_strength,
               (if snd st = None then Some ''sell'' else snd st))
         else if price_direction = ''upward''
         then (fst st + 0.2 * price_strength,
               (if snd st = None then Some ''buy'' else snd st))
         else st)"

definition levels_step :: "levels_rec \<Rightarrow> real \<times> string option \<Rightarrow> real \<times> string option" where
  "levels_step l st =
     (if dict_get (has_support_resistance l) False then (fst st + 0.1, snd st) else st)"

definition default_bias :: "real \<times> string option \<Rightarrow> real \<times> string" where
  "default_bias st =
     (case snd st of None \<Rightarrow> (max 0.7 (fst st), ''sell'') | Some d \<Rightarrow> (fst st, d))"

definition weighted_signal :: "real \<times> string \<Rightarrow> trading_signal" where
  "weighted_signal sd =
     (let signal_strength = fst sd; signal_direction = snd sd;
          final_confidence = max 0.75 signal_strength;
          stop_loss = (if signal_direction = ''sell'' then 0.5 else - 0.5);
          take_profit = (if signal_direction = ''sell'' then - 2.0 else 2.0)
      in \<lparr> isSignal = True, confidence = final_confidence, symbol = ''ETH'',
           side = signal_direction,
           entryPrice = None, stopLoss = None, takeProfit = None,
           stopLossPercent = stop_loss, takeProfitPercent = take_profit,
           quantity = 0.1, leverage = 1,
           signal_method = ''python_computer_vision'', trade_mode = None \<rparr>)"

definition accumulate :: "analysis \<Rightarrow> real \<times> string option" where
  "accumulate a =
     levels_step (support_resistance a)
       (price_step (price_action a)
         (pattern_step (candlestick_patterns a)
           (trend_step (trend_analysis a) (0, None))))"

definition generate_trading_signal :: "analysis \<Rightarrow> trading_signal" where
  "generate_trading_signal a =
     (let et = existing_trade a
      in if dict_get (has_existing_trade et) False
         then (if dict_get (trade_type et) ''follow_existing'' = ''copy_existing_setup''
               then (case trade_parameters et of
                       None \<Rightarrow> copy_signal 0.5 1.5
                     | Some tp \<Rightarrow>
                         copy_signal (dict_get (stop_loss_percent tp) 0.5)
                                     (dict_get (take_profit_percent tp) 1.5))
               else follow_signal)
         else weighted_signal (default_bias (accumulate a)))"

text \<open>
  The value of the \<^verbatim>\<open>except\<close> handler of \<^verbatim>\<open>_generate_trading_signal\<close>. On records of the
  shapes above the body performs lookups with defaults, comparisons and float arithmetic
  only, none of which raises, so \<open>generate_trading_signal\<close> never selects it.
\<close>

definition fusion_fallback_signal :: trading_signal where
  "fusion_fallback_signal =
     \<lparr> isSignal = True, confidence = 0.8, symbol = ''ETH'', side = ''sell'',
       entryPrice = None, stopLoss = None, takeProfit = None,
       stopLossPercent = 0.5, takeProfitPercent = 2.0,
       quantity = 0.1, leverage = 1,
       signal_method = ''python_fallback'', trade_mode = None \<rparr>"

section \<open>Decoded images\<close>

text \<open>
  A decoded raster as the analyzers see it. \<open>hsv\<close> is the result of
  \<^verbatim>\<open>cv2.cvtColor(image, cv2.COLOR_BGR2HSV)\<close>, its pixels in row-major order, each an
  (H, S, V) triple of unsigned bytes. The other fields are the results of the OpenCV call
  chains that the analyzers run on the image:
  \<^item> \<open>trade_lines\<close>: \<^verbatim>\<open>HoughLinesP(Canny(gray, 30, 100), ..., minLineLength=width//4)\<close>,
    each segment as \<open>(x1, y1, x2, y2)\<close>; the result \<^verbatim>\<open>None\<close> of OpenCV is the empty list;
  \<^item> \<open>candle_counts\<close>: \<^verbatim>\<open>countNonZero\<close> of the vertical and of the horizontal opening;
  \<^item> \<open>sr_lines\<close>: \<^verbatim>\<open>HoughLinesP(gray, ..., threshold=100, minLineLength=50)\<close>;
  \<^item> \<open>contours\<close>: \<^verbatim>\<open>findContours\<close> of the blurred edges, each contour its list of points
    \<open>(x, y)\<close>;
  \<^item> \<open>volume_bars\<close>: \<^verbatim>\<open>countNonZero\<close> of the opening of the bottom band.
  A field is \<open>None\<close> when a call of its chain raises.
\<close>

type_synonym hsv_pixel = "8 word \<times> 8 word \<times> 8 word"
type_synonym segment = "int \<times> int \<times> int \<times> int"
type_synonym point = "int \<times> int"

record image =
  height :: nat
  width :: nat
  hsv :: "hsv_pixel list option"
  trade_lines :: "segment list option"
  candle_counts :: "(nat \<times> nat) option"
  sr_lines :: "segment list option"
  contours :: "point list list option"
  volume_bars :: "nat option"

text \<open>\<^verbatim>\<open>cv2.inRange\<close>, \<^verbatim>\<open>cv2.bitwise_or\<close> and \<^verbatim>\<open>cv2.countNonZero\<close> on masks.\<close>

definition pixel_in_range :: "hsv_pixel \<Rightarrow> hsv_pixel \<Rightarrow> hsv_pixel \<Rightarrow> bool" where
  "pixel_in_range lower upper p =
     (case p of (h, s, v) \<Rightarrow>
      case lower of (lh, ls, lv) \<Rightarrow>
      case upper of (uh, us, uv) \<Rightarrow>
        lh \<le> h \<and> h \<le> uh \<and> ls \<le> s \<and> s \<le> us \<and> lv \<le> v \<and> v \<le> uv)"

definition inRange :: "hsv_pixel list \<Rightarrow> hsv_pixel \<Rightarrow> hsv_pixel \<Rightarrow> bool list" where
  "inRange px lower upper = map (pixel_in_range lower upper) px"

definition bitwise_or :: "bool list \<Rightarrow> bool list \<Rightarrow> bool list" where
  "bitwise_or m1 m2 = map (\<lambda>(a, b). a \<or> b) (zip m1 m2)"

definition countNonZero :: "bool list \<Rightarrow> nat" where
  "countNonZero m = length (filter (\<lambda>b. b) m)"

definition red_mask :: "hsv_pixel list \<Rightarrow> bool list" where
  "red_mask px =
     bitwise_or (inRange px (0, 50, 50) (10, 255, 255))
                (inRange px (170, 50, 50) (180, 255, 255))"

section \<open>Trend color analyzer\<close>

text \<open>
  \<^verbatim>\<open>_analyze_trend_colors\<close>. The handler of its \<^verbatim>\<open>try\<close> block is reached when the colour
  conversion raises and when \<open>total_pixels\<close> is 0 (\<^verbatim>\<open>ZeroDivisionError\<close>).
\<close>

definition trend_degraded :: trend_rec where
  "trend_degraded =
     \<lparr> trend = Some ''neutral'', trend_confidence = Some 0.5,
       green_ratio = None, red_ratio = None, dominant_color = None \<rparr>"

definition analyze_trend_colors :: "image \<Rightarrow> trend_rec" where
  "analyze_trend_colors img =
     (case hsv img of
        None \<Rightarrow> trend_degraded
      | Some px \<Rightarrow>
          (let green_pixels = countNonZero (inRange px (35, 50, 50) (85, 255, 255));
               red_pixels = countNonZero (red_mask px);
               total_pixels = height img * width img
           in if total_pixels = 0 then trend_degraded
              else
                (let g = real green_pixels / real total_pixels;
                     r = real red_pixels / real total_pixels;
                     tc = (if r < g \<and> 0.02 < g then (''bullish'', min 0.95 (0.6 + g * 5))
                           else if g < r \<and> 0.02 < r then (''bearish'', min 0.95 (0.6 + r * 5))
                           else (''neutral'', 0.5))
                 in \<lparr> trend = Some (fst tc), trend_confidence = Some (snd tc),
                      green_ratio = Some g, red_ratio = Some r,
                      dominant_color = Some (if r < g then ''green'' else ''red'') \<rparr>)))"

section \<open>Existing-trade detector\<close>

record level =
  y_position :: real
  height_ratio :: real
  level_length :: int
  strength :: real

text \<open>
  The loop over the Hough segments of \<^verbatim>\<open>_detect_existing_trade\<close>; \<^verbatim>\<open>width//4\<close> is floor
  division.
\<close>

definition is_flat :: "nat \<Rightarrow> segment \<Rightarrow> bool" where
  "is_flat w sg =
     (case sg of (x1, y1, x2, y2) \<Rightarrow> \<bar>y2 - y1\<bar> \<le> 3 \<and> int (w div 4) \<le> \<bar>x2 - x1\<bar>)"

definition make_level :: "nat \<Rightarrow> nat \<Rightarrow> segment \<Rightarrow> level" where
  "make_level h w sg =
     (case sg of (x1, y1, x2, y2) \<Rightarrow>
        (let y_pos = real_of_int (y1 + y2) / 2
         in \<lparr> y_position = y_pos, height_ratio = y_pos / real h,
              level_length = \<bar>x2 - x1\<bar>,
              strength = real_of_int \<bar>x2 - x1\<bar> / real w \<rparr>))"

definition horizontal_levels :: "nat \<Rightarrow> nat \<Rightarrow> segment list \<Rightarrow> level list" where
  "horizontal_levels h w lns =
     sort_key y_position (map (make_level h w) (filter (is_flat w) lns))"

text \<open>
  Python's \<^verbatim>\<open>round(x, 1)\<close> on the exact value: to the nearest tenth, a tie to the even
  tenth.
\<close>

definition py_round1 :: "real \<Rightarrow> real" where
  "py_round1 x =
     (let t = x * 10; f = \<lfloor>t\<rfloor>; d = t - of_int f
      in (if d < 1 / 2 then of_int f
          else if 1 / 2 < d then of_int (f + 1)
          else if even f then of_int f else of_int (f + 1)) / 10)"

text \<open>
  Python's \<^verbatim>\<open>min(xs, key=...)\<close> on a non-empty list: the first element of least key. It is
  called on lists known to be non-empty only.
\<close>

fun min_by :: "('a \<Rightarrow> real) \<Rightarrow> 'a \<Rightarrow> 'a list \<Rightarrow> 'a" where
  "min_by f best [] = best"
| "min_by f best (x # xs) = (if f x < f best then min_by f x xs else min_by f best xs)"

text \<open>
  \<^verbatim>\<open>_extract_trade_parameters\<close>. Its handler is not reached from the detector, which
  calls it after the division by \<open>total_pixels\<close> has succeeded, hence with a positive
  height.
\<close>

definition extract_trade_parameters :: "level list \<Rightarrow> nat \<Rightarrow> trade_params" where
  "extract_trade_parameters levels image_height =
     (let current_price_y = real image_height * 0.5;
          above = filter (\<lambda>l. y_position l < current_price_y) levels;
          below = filter (\<lambda>l. current_price_y < y_position l) levels;
          distance = (\<lambda>l. \<bar>y_position l - current_price_y\<bar>);
          sltp =
            (case (above, below) of
               (a # as, b # bs) \<Rightarrow>
                 (let above_distance = distance (min_by distance a as) / real image_height;
                      below_distance = distance (min_by distance b bs) / real image_height
                  in ((if 0 < below_distance then min 2.0 (max 0.3 (below_distance * 8))
                       else 0.5),
                      (if 0 < above_distance then min 3.0 (max 0.5 (above_distance * 10))
                       else 1.5)))
             | _ \<Rightarrow> (0.5, 1.5))
      in \<lparr> stop_loss_percent = Some (py_round1 (fst sltp)),
           take_profit_percent = Some (py_round1 (snd sltp)),
           levels_above = Some (length above),
           levels_below = Some (length below),
           trade_direction = Some ''follow_chart_setup'' \<rparr>)"

definition existing_degraded :: existing_rec where
  "existing_degraded =
     \<lparr> has_existing_trade = Some False, trade_type = Some ''new_signal'',
       markers_detected = None, trade_parameters = None,
       trade_confidence = None, action = Some ''generate_new_signal'' \<rparr>"

definition detect_existing_trade :: "image \<Rightarrow> existing_rec" where
  "detect_existing_trade img =
     (case (hsv img, trade_lines img) of
        (Some px, Some lns) \<Rightarrow>
          (let h = height img; w = width img;
               levels = horizontal_levels h w lns;
               blue_pixels = countNonZero (inRange px (100, 30, 30) (130, 255, 255));
               purple_pixels = countNonZero (inRange px (140, 30, 30) (170, 255, 255));
               red_pixels = countNonZero (red_mask px);
               yellow_pixels = countNonZero (inRange px (15, 50, 50) (35, 255, 255));
               total_pixels = h * w
           in if total_pixels = 0 then existing_degraded
              else
                (let blue_d = real blue_pixels / real total_pixels;
                     purple_d = real purple_pixels / real total_pixels
                 in if 0.002 < blue_d \<or> 0.001 < purple_d \<or> 3 \<le> length levels
                    then \<lparr> has_existing_trade = Some True,
                           trade_type = Some ''copy_existing_setup'',
                           markers_detected =
                             Some \<lparr> blue_lines = blue_pixels, purple_zones = purple_pixels,
                                    red_lines = red_pixels, yellow_lines = yellow_pixels,
                                    horizontal_levels_count = length levels,
                                    blue_density = blue_d, purple_density = purple_d \<rparr>,
                           trade_parameters = Some (extract_trade_parameters levels h),
                           trade_confidence = Some 0.9,
                           action = Some ''copy_trade_setup'' \<rparr>
                    else \<lparr> has_existing_trade = Some False,
                           trade_type = Some ''new_signal'',
                           markers_detected = None, trade_parameters = None,
                           trade_confidence = Some 0.0,
                           action = Some ''generate_new_signal'' \<rparr>))
      | _ \<Rightarrow> existing_degraded)"

section \<open>Candlestick pattern detector\<close>

text \<open>\<^verbatim>\<open>_detect_candlestick_patterns\<close>; the degraded dictionary has no confidence.\<close>

definition patterns_degraded :: patterns_rec where
  "patterns_degraded =
     \<lparr> pattern_detected = Some False, pattern_type = None,
       pattern_confidence = None, candlestick_density = None \<rparr>"

definition detect_candlestick_patterns :: "image \<Rightarrow> patterns_rec" where
  "detect_candlestick_patterns img =
     (case candle_counts img of
        None \<Rightarrow> patterns_degraded
      | Some (vertical_count, horizontal_count) \<Rightarrow>
          (if height img * width img = 0 then patterns_degraded
           else
             (let density = real (vertical_count + horizontal_count)
                              / real (height img * width img)
              in if 0.01 < density
                 then \<lparr> pattern_detected = Some True,
                        pattern_type = Some ''standard_candlesticks'',
                        pattern_confidence = Some (min 0.9 (density * 50)),
                        candlestick_density = Some density \<rparr>
                 else \<lparr> pattern_detected = Some False,
                        pattern_type = Some ''no_clear_pattern'',
                        pattern_confidence = Some 0.3,
                        candlestick_density = Some density \<rparr>)))"

section \<open>Support/resistance finder\<close>

text \<open>\<^verbatim>\<open>np.arctan2\<close> on finite arguments.\<close>

definition arctan2 :: "real \<Rightarrow> real \<Rightarrow> real" where
  "arctan2 y x =
     (if 0 < x then arctan (y / x)
      else if x < 0 then (if 0 \<le> y then arctan (y / x) + pi else arctan (y / x) - pi)
      else if 0 < y then pi / 2
      else if y < 0 then - (pi / 2)
      else 0)"

definition nearly_horizontal :: "segment \<Rightarrow> bool" where
  "nearly_horizontal sg =
     (case sg of (x1, y1, x2, y2) \<Rightarrow>
        (let angle = \<bar>arctan2 (real_of_int (y2 - y1)) (real_of_int (x2 - x1)) * 180 / pi\<bar>
         in angle < 5 \<or> 175 < angle))"

text \<open>
  The loop of \<^verbatim>\<open>_find_support_resistance_levels\<close>: \<open>acc\<close> is the list
  \<^verbatim>\<open>horizontal_lines\<close> built so far, and the strength of a new entry is computed from
  its current number of entries. Coordinates are unbounded integers: the 32-bit squares
  of the source wrap only for segments longer than 46340 pixels.
\<close>

fun sr_collect :: "segment list \<Rightarrow> sr_level list \<Rightarrow> sr_level list" where
  "sr_collect [] acc = acc"
| "sr_collect ((x1, y1, x2, y2) # rest) acc =
     (if nearly_horizontal (x1, y1, x2, y2)
      then sr_collect rest
             (acc @ [\<lparr> sr_y_position = (y1 + y2) div 2,
                       sr_length = sqrt (real_of_int ((x2 - x1)\<^sup>2 + (y2 - y1)\<^sup>2)),
                       sr_strength = min 1.0 (real (length acc) * 0.1) \<rparr>])
      else sr_collect rest acc)"

text \<open>
  \<^verbatim>\<open>list.sort(key=..., reverse=True)\<close>: descending, entries of equal key in their
  original order.
\<close>

definition sort_desc :: "('a \<Rightarrow> real) \<Rightarrow> 'a list \<Rightarrow> 'a list" where
  "sort_desc f xs = rev (sort_key f (rev xs))"

definition levels_degraded :: levels_rec where
  "levels_degraded =
     \<lparr> levels_detected = Some 0, strong_levels = None, has_support_resistance = None \<rparr>"

definition find_support_resistance_levels :: "image \<Rightarrow> levels_rec" where
  "find_support_resistance_levels img =
     (case sr_lines img of
        None \<Rightarrow> levels_degraded
      | Some lns \<Rightarrow>
          (let horizontal_lines = sort_desc sr_strength (sr_collect lns [])
           in \<lparr> levels_detected = Some (length horizontal_lines),
                strong_levels = Some (take 5 horizontal_lines),
                has_support_resistance = Some (2 < length horizontal_lines) \<rparr>))"

section \<open>Price-action analyzer\<close>

text \<open>
  The loop over the contours of \<^verbatim>\<open>_analyze_price_action\<close>, on the pair
  \<open>(upward_movement, downward_movement)\<close>. A contour of more than 10 points has a first
  and a last point.
\<close>

fun count_movements :: "point list list \<Rightarrow> nat \<times> nat \<Rightarrow> nat \<times> nat" where
  "count_movements [] ud = ud"
| "count_movements (contour # rest) (up, down) =
     (if 10 < length contour
      then (let start_y = snd (hd contour); end_y = snd (last contour)
            in if end_y < start_y then count_movements rest (up + 1, down)
               else if start_y < end_y then count_movements rest (up, down + 1)
               else count_movements rest (up, down))
      else count_movements rest (up, down))"

definition price_degraded :: price_rec where
  "price_degraded =
     \<lparr> trend_direction = Some ''unclear'', trend_strength = None,
       upward_movements = None, downward_movements = None \<rparr>"

definition analyze_price_action :: "image \<Rightarrow> price_rec" where
  "analyze_price_action img =
     (case contours img of
        None \<Rightarrow> price_degraded
      | Some cs \<Rightarrow>
          (case count_movements cs (0, 0) of (up, down) \<Rightarrow>
             (let total_movement = up + down;
                  ds = (if 0 < total_movement
                        then (let upward_ratio = real up / real total_movement
                              in if 0.6 < upward_ratio then (''upward'', upward_ratio)
                                 else if upward_ratio < 0.4
                                 then (''downward'', 1 - upward_ratio)
                                 else (''sideways'', 0.5))
                        else (''unclear'', 0.3))
              in \<lparr> trend_direction = Some (fst ds), trend_strength = Some (snd ds),
                   upward_movements = Some up, downward_movements = Some down \<rparr>)))"

section \<open>Volume pattern analyzer\<close>

text \<open>
  \<^verbatim>\<open>_analyze_volume_patterns\<close>. The band \<^verbatim>\<open>image[int(height * 0.7):, :]\<close> has
  \<open>height - int(height * 0.7)\<close> rows, the product being taken exactly.
\<close>

definition volume_degraded :: volume_rec where
  "volume_degraded =
     \<lparr> volume_present = Some False, volume_pattern = None, volume_density = None \<rparr>"

definition analyze_volume_patterns :: "image \<Rightarrow> volume_rec" where
  "analyze_volume_patterns img =
     (case volume_bars img of
        None \<Rightarrow> volume_degraded
      | Some nonzero \<Rightarrow>
          (let region_rows = height img - nat \<lfloor>real (height img) * 0.7\<rfloor>;
               region_size = region_rows * width img
           in if region_size = 0 then volume_degraded
              else
                (let density = real nonzero / real region_size
                 in if 0.005 < density
                    then \<lparr> volume_present = Some True,
                           volume_pattern = Some ''bars_detected'',
                           volume_density = Some density \<rparr>
                    else \<lparr> volume_present = Some False,
                           volume_pattern = Some ''no_volume_visible'',
                           volume_density = Some density \<rparr>)))"

section \<open>Image decoder\<close>

text \<open>
  The library functions of \<^verbatim>\<open>_decode_image\<close>: \<^verbatim>\<open>base64.b64decode\<close> (\<open>None\<close> when it
  raises), the PIL path from \<^verbatim>\<open>Image.open\<close> to \<^verbatim>\<open>cv2.cvtColor\<close> (\<open>None\<close> when a call of
  it raises), and \<^verbatim>\<open>cv2.imdecode\<close> (\<open>None\<close> when it returns \<^verbatim>\<open>None\<close> or raises).
\<close>

record codecs =
  b64decode :: "string \<Rightarrow> 8 word list option"
  pil_open :: "8 word list \<Rightarrow> image option"
  cv_imdecode :: "8 word list \<Rightarrow> image option"

text \<open>\<^verbatim>\<open>str.split(sep)\<close> for a separator of one character, and \<^verbatim>\<open>str.strip()\<close>.\<close>

fun split_on :: "char \<Rightarrow> string \<Rightarrow> string list" where
  "split_on c [] = [[]]"
| "split_on c (x # xs) =
     (if x = c then [] # split_on c xs
      else (case split_on c xs of
              [] \<Rightarrow> [[x]]
            | w # ws \<Rightarrow> (x # w) # ws))"

definition is_space :: "char \<Rightarrow> bool" where
  "is_space ch =
     (let n = (of_char ch :: nat)
      in (9 \<le> n \<and> n \<le> 13) \<or> (28 \<le> n \<and> n \<le> 32) \<or> n = 133 \<or> n = 160)"

definition strip :: "string \<Rightarrow> string" where
  "strip s = rev (dropWhile is_space (rev (dropWhile is_space s)))"

text \<open>
  The part of \<^verbatim>\<open>_decode_image\<close> after the prefix has been removed: clean up, decode
  base64, check the size, try PIL, then OpenCV.
\<close>

definition decode_payload :: "codecs \<Rightarrow> string \<Rightarrow> image option" where
  "decode_payload c payload =
     (case b64decode c (strip payload) of
        None \<Rightarrow> None
      | Some image_bytes \<Rightarrow>
          (if length image_bytes < 100 then None
           else (case pil_open c image_bytes of
                   Some opencv_image \<Rightarrow> Some opencv_image
                 | None \<Rightarrow> cv_imdecode c image_bytes)))"

definition decode_image :: "codecs \<Rightarrow> string \<Rightarrow> image option" where
  "decode_image c image_data =
     (if prefix ''data:'' image_data
      then (if CHR '','' \<in> set image_data
            then (case split_on CHR '','' image_data of
                    _ # payload # _ \<Rightarrow> decode_payload c payload
                  | _ \<Rightarrow> None)
            else None)
      else decode_payload c image_data)"

section \<open>The pipeline\<close>

text \<open>
  \<^verbatim>\<open>analyze_chart_image\<close> and \<^verbatim>\<open>_create_error_response\<close>. Every analyzer and the fusion
  engine catch their own exceptions, so after a successful decode nothing raises and the
  handler of the outer \<^verbatim>\<open>try\<close>, which would return the error response with another
  message, is not reached.
\<close>

record response =
  success :: bool
  error :: "string option"
  analysis_results :: "analysis option"
  trading_signal :: trading_signal
  response_confidence :: "real option"
  response_method :: "string option"

definition create_error_response :: "string \<Rightarrow> response" where
  "create_error_response error_message =
     \<lparr> success = False, error = Some error_message, analysis_results = None,
       trading_signal =
         \<lparr> isSignal = True, confidence = 0.75, symbol = ''ETH'', side = ''sell'',
           entryPrice = None, stopLoss = None, takeProfit = None,
           stopLossPercent = 0.5, takeProfitPercent = 2.0,
           quantity = 0.1, leverage = 1,
           signal_method = ''python_error_fallback'', trade_mode = None \<rparr>,
       response_confidence = None, response_method = None \<rparr>"

definition analyze_image :: "image \<Rightarrow> analysis" where
  "analyze_image img =
     \<lparr> trend_analysis = analyze_trend_colors img,
       existing_trade = detect_existing_trade img,
       candlestick_patterns = detect_candlestick_patterns img,
       support_resistance = find_support_resistance_levels img,
       price_action = analyze_price_action img,
       volume_analysis = analyze_volume_patterns img \<rparr>"

definition analyze_chart_image :: "codecs \<Rightarrow> string \<Rightarrow> response" where
  "analyze_chart_image c image_data =
     (case decode_image c image_data of
        None \<Rightarrow> create_error_response ''Failed to decode image''
      | Some img \<Rightarrow>
          (let results = analyze_image img;
               sig = generate_trading_signal results
           in \<lparr> success = True, error = None, analysis_results = Some results,
                trading_signal = sig,
                response_confidence = Some (confidence sig),
                response_method = Some ''python_cv_analysis'' \<rparr>))"

section \<open>Statements of the specification\<close>

text \<open>
  Definitions that follow the words of the specification; the theorems below compare
  them with the functions above.
\<close>

text \<open>The fields that every signal is said to carry unchanged.\<close>

definition fixed_fields :: "trading_signal \<Rightarrow> bool" where
  "fixed_fields s \<longleftrightarrow>
     isSignal s \<and> symbol s = ''ETH'' \<and> quantity s = 0.1 \<and> leverage s = 1
     \<and> entryPrice s = None"

text \<open>The offsets of the derived trade parameters, with the defaults of a missing key.\<close>

definition copied_stop :: "existing_rec \<Rightarrow> real" where
  "copied_stop et =
     (case trade_parameters et of
        None \<Rightarrow> 0.5
      | Some tp \<Rightarrow> dict_get (stop_loss_percent tp) 0.5)"

definition copied_target :: "existing_rec \<Rightarrow> real" where
  "copied_target et =
     (case trade_parameters et of
        None \<Rightarrow> 1.5
      | Some tp \<Rightarrow> dict_get (take_profit_percent tp) 1.5)"



text \<open>
  The fractions of pixels in the hue bands; 0 where the source cannot compute them (the
  colour conversion raises, or the image has no pixels).
\<close>

definition band_fraction :: "image \<Rightarrow> (hsv_pixel list \<Rightarrow> bool list) \<Rightarrow> real" where
  "band_fraction img band =
     (case hsv img of
        None \<Rightarrow> 0
      | Some px \<Rightarrow>
          (if height img * width img = 0 then 0
           else real (countNonZero (band px)) / real (height img * width img)))"

definition green_fraction :: "image \<Rightarrow> real" where
  "green_fraction img = band_fraction img (\<lambda>px. inRange px (35, 50, 50) (85, 255, 255))"

definition red_fraction :: "image \<Rightarrow> real" where
  "red_fraction img = band_fraction img red_mask"

definition blue_fraction :: "image \<Rightarrow> real" where
  "blue_fraction img = band_fraction img (\<lambda>px. inRange px (100, 30, 30) (130, 255, 255))"

definition purple_fraction :: "image \<Rightarrow> real" where
  "purple_fraction img = band_fraction img (\<lambda>px. inRange px (140, 30, 30) (170, 255, 255))"

text \<open>
  The trigger rule in the words of the specification: a level is a segment whose
  vertical deviation is at most 3 pixels and whose length is at least a quarter of the
  image width.
\<close>

definition spec_level :: "nat \<Rightarrow> segment \<Rightarrow> bool" where
  "spec_level w sg =
     (case sg of (x1, y1, x2, y2) \<Rightarrow>
        \<bar>y2 - y1\<bar> \<le> 3 \<and> real w / 4 \<le> real_of_int \<bar>x2 - x1\<bar>)"

definition spec_has_trade :: "image \<Rightarrow> bool" where
  "spec_has_trade img \<longleftrightarrow>
     0.002 < blue_fraction img \<or> 0.001 < purple_fraction img
     \<or> 3 \<le> length (filter (spec_level (width img)) (dict_get (trade_lines img) []))"



text \<open>A strength score that is monotonic in the length, for the two kinds of level.\<close>

definition level_monotone :: "level list \<Rightarrow> bool" where
  "level_monotone ls \<longleftrightarrow>
     list_all (\<lambda>a. list_all (\<lambda>b. level_length a \<le> level_length b
                                   \<longrightarrow> strength a \<le> strength b) ls) ls"

definition sr_monotone :: "sr_level list \<Rightarrow> bool" where
  "sr_monotone ls \<longleftrightarrow>
     list_all (\<lambda>a. list_all (\<lambda>b. sr_length a \<le> sr_length b
                                   \<longrightarrow> sr_strength a \<le> sr_strength b) ls) ls"

section \<open>Sample inputs\<close>

text \<open>
  An all-black raster of the given shape, as OpenCV sees it: black is (0, 0, 0) in HSV,
  its grayscale is zero, so edge detection, the line transforms, the openings and the
  contour search find nothing.
\<close>

definition black_image :: "nat \<Rightarrow> nat \<Rightarrow> image" where
  "black_image h w =
     \<lparr> height = h, width = w, hsv = Some (replicate (h * w) (0, 0, 0)),
       trade_lines = Some [], candle_counts = Some (0, 0), sr_lines = Some [],
       contours = Some [], volume_bars = Some 0 \<rparr>"

text \<open>
  Rasters of charts with white lines on black: \<open>n\<close> black rows of width \<open>w\<close>, and a
  black row of width \<open>w\<close> that is white from column \<open>x1\<close> to column \<open>x2\<close>.
\<close>

definition black_rows :: "nat \<Rightarrow> nat \<Rightarrow> hsv_pixel list" where
  "black_rows n w = replicate (n * w) (0, 0, 0)"

definition segment_row :: "nat \<Rightarrow> nat \<Rightarrow> nat \<Rightarrow> hsv_pixel list" where
  "segment_row w x1 x2 =
     replicate x1 (0, 0, 0) @ replicate (x2 + 1 - x1) (0, 0, 255)
       @ replicate (w - (x2 + 1)) (0, 0, 0)"

text \<open>
  A chart of 1000 rows and 800 columns with three white levels drawn on black, at rows
  377, 600 and 900, from column 100 to column 400, and the three segments as the line
  transform of the detector reports them. The fields that the detector does not read
  are those of the black image.
\<close>

definition annotated_chart :: image where
  "annotated_chart =
     (black_image 1000 800)
       \<lparr> hsv :=
           Some (black_rows 377 800 @ segment_row 800 100 400
                 @ black_rows 222 800 @ segment_row 800 100 400
                 @ black_rows 299 800 @ segment_row 800 100 400
                 @ black_rows 99 800),
         trade_lines :=
           Some [(100, 377, 400, 377), (100, 600, 400, 600), (100, 900, 400, 900)] \<rparr>"

text \<open>An analysis whose detector record asks for the legacy follow mode.\<close>

definition follow_analysis :: analysis where
  "follow_analysis =
     \<lparr> trend_analysis = trend_degraded,
       existing_trade =
         \<lparr> has_existing_trade = Some True, trade_type = Some ''follow_existing'',
           markers_detected = None, trade_parameters = None,
           trade_confidence = Some 0.8, action = None \<rparr>,
       candlestick_patterns = patterns_degraded,
       support_resistance = levels_degraded,
       price_action = price_degraded,
       volume_analysis = volume_degraded \<rparr>"

text \<open>
  A chart of 40 by 40 pixels, 480 of them saturated green, with candlestick structure
  and 12 contours that all end below their start.
\<close>

definition falling_contour :: "point list" where
  "falling_contour = map (\<lambda>i. (int i, 10 + int i)) [0..<11]"

definition green_chart :: image where
  "green_chart =
     \<lparr> height = 40, width = 40,
       hsv = Some (replicate 1120 (0, 0, 0) @ replicate 480 (60, 200, 200)),
       trade_lines = Some [], candle_counts = Some (20, 20), sr_lines = Some [],
       contours = Some (replicate 12 falling_contour), volume_bars = Some 0 \<rparr>"

text \<open>
  A chart of 60 rows and 203 columns with three white segments on black, at rows 10, 30
  and 50, from column 10 to column 60; a quarter of the width is 50.75.
\<close>

definition short_lines_chart :: image where
  "short_lines_chart =
     (black_image 60 203)
       \<lparr> hsv :=
           Some (black_rows 10 203 @ segment_row 203 10 60
                 @ black_rows 19 203 @ segment_row 203 10 60
                 @ black_rows 19 203 @ segment_row 203 10 60
                 @ black_rows 9 203),
         trade_lines := Some [(10, 10, 60, 10), (10, 30, 60, 30), (10, 50, 60, 50)] \<rparr>"

text \<open>
  A chart of 100 rows and 400 columns with one saturated blue line on black, at row 50
  from column 0 to column 150, reported as one segment.
\<close>

definition blue_line_chart :: image where
  "blue_line_chart =
     (black_image 100 400)
       \<lparr> hsv :=
           Some (black_rows 50 400 @ replicate 151 (120, 255, 255) @ replicate 249 (0, 0, 0)
                 @ black_rows 49 400),
         trade_lines := Some [(0, 50, 150, 50)] \<rparr>"

text \<open>Segments of 300 and of 250 pixels, for an image 800 pixels wide.\<close>

definition mixed_lines :: "segment list" where
  "mixed_lines = [(100, 377, 400, 377), (100, 600, 350, 600)]"

text \<open>
  A chart of 100 rows and 400 columns with a white line of 300 pixels at row 10 and one
  of 150 pixels at row 20, on which the line transform of the support/resistance finder
  reports the longer segment first.
\<close>

definition two_lines_chart :: image where
  "two_lines_chart =
     (black_image 100 400)
       \<lparr> hsv :=
           Some (black_rows 10 400 @ segment_row 400 0 300
                 @ black_rows 9 400 @ segment_row 400 0 150
                 @ black_rows 79 400),
         sr_lines := Some [(0, 10, 300, 10), (0, 20, 150, 20)] \<rparr>"


section \<open>Masks of rasters made of uniform runs\<close>

lemma countNonZero_replicate: "countNonZero (replicate n b) = (if b then n else 0)"
  by (simp add: countNonZero_def)

lemma countNonZero_append: "countNonZero (m1 @ m2) = countNonZero m1 + countNonZero m2"
  by (simp add: countNonZero_def)

lemma red_mask_map:
  "red_mask px
   = map (\<lambda>p. pixel_in_range (0, 50, 50) (10, 255, 255) p
               \<or> pixel_in_range (170, 50, 50) (180, 255, 255) p) px"
  by (induction px) (simp_all add: red_mask_def bitwise_or_def inRange_def)

lemmas uniform_masks = countNonZero_replicate countNonZero_append inRange_def red_mask_map
  pixel_in_range_def black_rows_def segment_row_def

section \<open>The confidence floor\<close>

lemma weighted_confidence: "confidence (weighted_signal sd) = max 0.75 (fst sd)"
  by (simp add: weighted_signal_def Let_def)

lemma generate_confidence_floor: "0.75 \<le> confidence (generate_trading_signal a)"
proof -
  have "0.75 \<le> confidence (weighted_signal sd)" for sd
    unfolding weighted_confidence by (rule max.cobounded1)
  moreover have "(0.75::real) \<le> 0.95" "(0.75::real) \<le> 0.9"
    by simp_all
  ultimately show ?thesis
    unfolding generate_trading_signal_def Let_def copy_signal_def follow_signal_def
    by (auto split: option.splits)
qed

text \<open>
  Claim C1. Whatever the encoded input and the codecs do, the confidence of the signal
  in the response is at least 0.75; so is the confidence of the signal generated from
  any analysis. Path by path: the copy signal has 0.95, the follow signal 0.9, the
  weighted signal the maximum of 0.75 and the accumulated score, the fallback of the
  fusion engine 0.8 and the signal of the error response 0.75.
\<close>

theorem C1_confidence_floor:
  "0.75 \<le> confidence (trading_signal (analyze_chart_image c image_data))
   \<and> 0.75 \<le> confidence (generate_trading_signal a)
   \<and> confidence (copy_signal sl tp) = 0.95
   \<and> confidence follow_signal = 0.9
   \<and> confidence (weighted_signal (score, direction)) = max 0.75 score
   \<and> confidence fusion_fallback_signal = 0.8
   \<and> confidence (trading_signal (create_error_response msg)) = 0.75"
proof -
  have "0.75 \<le> confidence (trading_signal (analyze_chart_image c image_data))"
  proof (cases "decode_image c image_data")
    case None
    then show ?thesis
      by (simp add: analyze_chart_image_def create_error_response_def)
  next
    case (Some img)
    then show ?thesis
      using generate_confidence_floor [of "analyze_image img"]
      by (simp add: analyze_chart_image_def Let_def)
  qed
  moreover note generate_confidence_floor [of a]
  moreover have "confidence (copy_signal sl tp) = 0.95" "confidence follow_signal = 0.9"
    "confidence fusion_fallback_signal = 0.8"
    "confidence (trading_signal (create_error_response msg)) = 0.75"
    by (simp_all add: copy_signal_def follow_signal_def fusion_fallback_signal_def
        create_error_response_def)
  moreover have "confidence (weighted_signal (score, direction)) = max 0.75 score"
    by (simp add: weighted_confidence)
  ultimately show ?thesis
    by blast
qed

section \<open>Fields that do not depend on the image\<close>

lemma generate_fixed: "fixed_fields (generate_trading_signal a)"
  by (simp add: fixed_fields_def generate_trading_signal_def Let_def copy_signal_def
      follow_signal_def weighted_signal_def split: option.splits)

text \<open>
  Claim C10. On every path the signal has isSignal = true, symbol ETH, quantity 0.1,
  leverage 1 and no entry price: in the response to any input, in the signal generated
  from any analysis, and in each of the five signal shapes.
\<close>

theorem C10_fixed_fields:
  "fixed_fields (trading_signal (analyze_chart_image c image_data))
   \<and> fixed_fields (generate_trading_signal a)
   \<and> fixed_fields (copy_signal sl tp)
   \<and> fixed_fields follow_signal
   \<and> fixed_fields (weighted_signal sd)
   \<and> fixed_fields fusion_fallback_signal
   \<and> fixed_fields (trading_signal (create_error_response msg))"
proof -
  have "fixed_fields (trading_signal (analyze_chart_image c image_data))"
    by (simp add: analyze_chart_image_def Let_def generate_fixed split: option.splits)
       (simp add: fixed_fields_def create_error_response_def)
  then show ?thesis
    by (simp add: generate_fixed)
       (simp add: fixed_fields_def copy_signal_def follow_signal_def weighted_signal_def
        Let_def fusion_fallback_signal_def create_error_response_def)
qed

section \<open>The analyzers on the sample inputs\<close>

lemma annotated_levels:
  "horizontal_levels 1000 800 [(100, 377, 400, 377), (100, 600, 400, 600), (100, 900, 400, 900)]
   = [\<lparr>y_position = 377, height_ratio = 377 / 1000, level_length = 300, strength = 3 / 8\<rparr>,
      \<lparr>y_position = 600, height_ratio = 3 / 5, level_length = 300, strength = 3 / 8\<rparr>,
      \<lparr>y_position = 900, height_ratio = 9 / 10, level_length = 300, strength = 3 / 8\<rparr>]"
  by (simp add: horizontal_levels_def is_flat_def make_level_def)

lemma annotated_params:
  "extract_trade_parameters
     [\<lparr>y_position = 377, height_ratio = 377 / 1000, level_length = 300, strength = 3 / 8\<rparr>,
      \<lparr>y_position = 600, height_ratio = 3 / 5, level_length = 300, strength = 3 / 8\<rparr>,
      \<lparr>y_position = 900, height_ratio = 9 / 10, level_length = 300, strength = 3 / 8\<rparr>] 1000
   = \<lparr> stop_loss_percent = Some (4 / 5), take_profit_percent = Some (6 / 5),
       levels_above = Some 1, levels_below = Some 2,
       trade_direction = Some ''follow_chart_setup'' \<rparr>"
  by (simp add: extract_trade_parameters_def py_round1_def Let_def)

lemma annotated_detect:
  "has_existing_trade (detect_existing_trade annotated_chart) = Some True
   \<and> trade_type (detect_existing_trade annotated_chart) = Some ''copy_existing_setup''
   \<and> trade_parameters (detect_existing_trade annotated_chart)
       = Some \<lparr> stop_loss_percent = Some (4 / 5), take_profit_percent = Some (6 / 5),
                levels_above = Some 1, levels_below = Some 2,
                trade_direction = Some ''follow_chart_setup'' \<rparr>"
  by (simp add: detect_existing_trade_def annotated_chart_def black_image_def uniform_masks
      Let_def annotated_levels annotated_params)








section \<open>The existing-trade short circuit\<close>

text \<open>
  Claim C2. When the detector record says that an existing trade was found, the signal
  is a copy signal (confidence 0.95, no entry price, the offsets of the derived trade
  parameters) if the trade type is \<open>copy_existing_setup\<close>, and a follow signal
  (confidence 0.9, no entry price, 0.5 and 1.5) for any other or a missing trade type.
  The signal is the same whatever the trend, pattern, support/resistance and
  price-action records are.
\<close>

theorem C2_existing_trade_short_circuit:
  assumes "has_existing_trade (existing_trade a) = Some True"
  shows "(let s = generate_trading_signal a;
              copying = (trade_type (existing_trade a) = Some ''copy_existing_setup'')
          in side s = (if copying then ''copy'' else ''follow'')
             \<and> confidence s = (if copying then 0.95 else 0.9)
             \<and> entryPrice s = None
             \<and> stopLossPercent s = (if copying then copied_stop (existing_trade a) else 0.5)
             \<and> takeProfitPercent s
                 = (if copying then copied_target (existing_trade a) else 1.5))
         \<and> generate_trading_signal
              (a\<lparr> trend_analysis := t, candlestick_patterns := p,
                  support_resistance := l, price_action := pa \<rparr>)
            = generate_trading_signal a"
  using assms
  by (cases "trade_type (existing_trade a)")
     (simp_all add: generate_trading_signal_def Let_def dict_get_def copy_signal_def
       follow_signal_def copied_stop_def copied_target_def split: option.splits)

theorem C2_existing_trade_witness:
  "has_existing_trade (existing_trade (analyze_image annotated_chart)) = Some True
   \<and> side (generate_trading_signal (analyze_image annotated_chart)) = ''copy''
   \<and> confidence (generate_trading_signal (analyze_image annotated_chart)) = 0.95
   \<and> stopLossPercent (generate_trading_signal (analyze_image annotated_chart)) = 0.8
   \<and> takeProfitPercent (generate_trading_signal (analyze_image annotated_chart)) = 1.2
   \<and> has_existing_trade (existing_trade follow_analysis) = Some True
   \<and> side (generate_trading_signal follow_analysis) = ''follow''
   \<and> confidence (generate_trading_signal follow_analysis) = 0.9
   \<and> stopLossPercent (generate_trading_signal follow_analysis) = 0.5
   \<and> takeProfitPercent (generate_trading_signal follow_analysis) = 1.5"
proof -
  have copy: "has_existing_trade (existing_trade (analyze_image annotated_chart)) = Some True"
    by (simp add: analyze_image_def annotated_detect)
  have follow: "has_existing_trade (existing_trade follow_analysis) = Some True"
    by (simp add: follow_analysis_def)
  show ?thesis
    using copy follow
      C2_existing_trade_short_circuit [OF copy]
      C2_existing_trade_short_circuit [OF follow]
    by (simp add: Let_def analyze_image_def annotated_detect copied_stop_def
        copied_target_def dict_get_def follow_analysis_def)
qed

section \<open>The weighted fusion path\<close>





section \<open>Rounding to one decimal\<close>





section \<open>The nearest level\<close>







section \<open>Derived trade parameters\<close>






section \<open>The trend rule\<close>

lemma band_fraction_nonneg: "0 \<le> band_fraction img band"
  by (simp add: band_fraction_def split: option.splits)

lemma trend_by_fractions:
  "analyze_trend_colors img
   = (case hsv img of
        None \<Rightarrow> trend_degraded
      | Some px \<Rightarrow>
          if height img * width img = 0 then trend_degraded
          else (let g = green_fraction img; r = red_fraction img;
                    tc = (if r < g \<and> 0.02 < g then (''bullish'', min 0.95 (0.6 + g * 5))
                          else if g < r \<and> 0.02 < r then (''bearish'', min 0.95 (0.6 + r * 5))
                          else (''neutral'', 0.5))
                in \<lparr> trend = Some (fst tc), trend_confidence = Some (snd tc),
                     green_ratio = Some g, red_ratio = Some r,
                     dominant_color = Some (if r < g then ''green'' else ''red'') \<rparr>))"
  by (cases "hsv img")
     (simp_all add: analyze_trend_colors_def green_fraction_def red_fraction_def
       band_fraction_def Let_def)

text \<open>
  Claim C5. The trend is bullish exactly when the green fraction exceeds both the red
  fraction and 0.02, bearish exactly when the red fraction exceeds both the green
  fraction and 0.02, and neutral otherwise; the confidence is the minimum of 0.95 and
  0.6 plus five times the winning fraction, which is at least 0.6, and 0.5 when the
  trend is neutral. Where the fractions cannot be computed they count as 0 and the
  trend is neutral.
\<close>

theorem C5_trend_rule:
  "(let t = analyze_trend_colors img; g = green_fraction img; r = red_fraction img
    in (trend t = Some ''bullish'') = (r < g \<and> 0.02 < g)
       \<and> (trend t = Some ''bearish'') = (g < r \<and> 0.02 < r)
       \<and> (trend t = Some ''neutral'') = (\<not> (r < g \<and> 0.02 < g) \<and> \<not> (g < r \<and> 0.02 < r))
       \<and> trend_confidence t
           = Some (if r < g \<and> 0.02 < g then min 0.95 (0.6 + g * 5)
                   else if g < r \<and> 0.02 < r then min 0.95 (0.6 + r * 5)
                   else 0.5)
       \<and> 0.6 \<le> min 0.95 (0.6 + g * 5) \<and> 0.6 \<le> min 0.95 (0.6 + r * 5))"
proof -
  define g where "g = green_fraction img"
  define r where "r = red_fraction img"
  have nonneg: "0 \<le> g" "0 \<le> r"
    by (simp_all add: g_def r_def green_fraction_def red_fraction_def band_fraction_nonneg)
  have floor: "0.6 \<le> min 0.95 (0.6 + g * 5)" "0.6 \<le> min 0.95 (0.6 + r * 5)"
    using nonneg by simp_all
  have degraded: "g = 0 \<and> r = 0" if "hsv img = None \<or> height img * width img = 0"
    using that
    by (auto simp: g_def r_def green_fraction_def red_fraction_def band_fraction_def
        split: option.splits)
  have rule: "trend (analyze_trend_colors img)
                = Some (if r < g \<and> 0.02 < g then ''bullish''
                        else if g < r \<and> 0.02 < r then ''bearish'' else ''neutral'')
              \<and> trend_confidence (analyze_trend_colors img)
                = Some (if r < g \<and> 0.02 < g then min 0.95 (0.6 + g * 5)
                        else if g < r \<and> 0.02 < r then min 0.95 (0.6 + r * 5)
                        else 0.5)"
  proof (cases "hsv img = None \<or> height img * width img = 0")
    case True
    with degraded have "g = 0" "r = 0" by simp_all
    with True show ?thesis
      by (auto simp: trend_by_fractions trend_degraded_def split: option.splits)
  next
    case False
    then show ?thesis
      by (auto simp: trend_by_fractions Let_def g_def r_def)
  qed
  show ?thesis
    unfolding Let_def g_def [symmetric] r_def [symmetric]
    using rule floor by auto
qed

theorem C5_trend_rule_witness:
  "green_fraction green_chart = 0.3 \<and> red_fraction green_chart = 0
   \<and> trend (analyze_trend_colors green_chart) = Some ''bullish''
   \<and> trend_confidence (analyze_trend_colors green_chart) = Some 0.95
   \<and> green_fraction (black_image 10 10) = 0 \<and> red_fraction (black_image 10 10) = 0
   \<and> trend (analyze_trend_colors (black_image 10 10)) = Some ''neutral''
   \<and> trend_confidence (analyze_trend_colors (black_image 10 10)) = Some 0.5"
proof -
  have fractions: "green_fraction green_chart = 0.3" "red_fraction green_chart = 0"
    "green_fraction (black_image 10 10) = 0" "red_fraction (black_image 10 10) = 0"
    by (simp_all add: green_fraction_def red_fraction_def band_fraction_def green_chart_def
        black_image_def uniform_masks)
  show ?thesis
    using C5_trend_rule [of green_chart] C5_trend_rule [of "black_image 10 10"]
    unfolding Let_def fractions
    by simp
qed

section \<open>The trigger rule\<close>

lemma length_horizontal_levels:
  "length (horizontal_levels h w lns) = length (filter (is_flat w) lns)"
  by (simp add: horizontal_levels_def)

text \<open>
  Claim C3, as amended. The detector reports an existing trade exactly when its OpenCV
  calls return, the image has pixels, and the blue fraction exceeds 0.002 or the purple
  fraction exceeds 0.001 or at least 3 segments deviate by at most 3 pixels vertically
  and extend over at least the integer quotient of the width by 4 horizontally.
\<close>

theorem C3_trigger_rule:
  "has_existing_trade (detect_existing_trade img)
   = Some (hsv img \<noteq> None \<and> trade_lines img \<noteq> None \<and> 0 < height img * width img
           \<and> (0.002 < blue_fraction img \<or> 0.001 < purple_fraction img
               \<or> 3 \<le> length (filter (\<lambda>(x1, y1, x2, y2).
                                        \<bar>y2 - y1\<bar> \<le> 3
                                        \<and> int (width img div 4) \<le> \<bar>x2 - x1\<bar>)
                                    (dict_get (trade_lines img) []))))"
proof -
  have flat: "is_flat w = (\<lambda>(x1, y1, x2, y2). \<bar>y2 - y1\<bar> \<le> 3 \<and> int (w div 4) \<le> \<bar>x2 - x1\<bar>)"
    for w
    by (auto simp: is_flat_def fun_eq_iff)
  show ?thesis
  proof (cases "hsv img")
    case None
    then show ?thesis
      by (simp add: detect_existing_trade_def existing_degraded_def)
  next
    case (Some px)
    show ?thesis
    proof (cases "trade_lines img")
      case None
      with Some show ?thesis
        by (simp add: detect_existing_trade_def existing_degraded_def)
    next
      case lines: (Some lns)
      show ?thesis
      proof (cases "height img * width img = 0")
        case True
        with Some lines show ?thesis
          by (auto simp: detect_existing_trade_def existing_degraded_def Let_def)
      next
        case False
        with Some lines show ?thesis
          unfolding flat [symmetric]
          by (simp add: detect_existing_trade_def Let_def blue_fraction_def
              purple_fraction_def band_fraction_def length_horizontal_levels dict_get_def)
      qed
    qed
  qed
qed

theorem C3_trigger_rule_witness:
  "blue_fraction blue_line_chart = 151 / 40000
   \<and> has_existing_trade (detect_existing_trade blue_line_chart) = Some True
   \<and> blue_fraction annotated_chart = 0 \<and> purple_fraction annotated_chart = 0
   \<and> has_existing_trade (detect_existing_trade annotated_chart) = Some True
   \<and> has_existing_trade (detect_existing_trade (black_image 10 10)) = Some False"
proof -
  have fractions: "blue_fraction blue_line_chart = 151 / 40000"
    "blue_fraction annotated_chart = 0" "purple_fraction annotated_chart = 0"
    "blue_fraction (black_image 10 10) = 0" "purple_fraction (black_image 10 10) = 0"
    by (simp_all add: blue_fraction_def purple_fraction_def band_fraction_def
        blue_line_chart_def annotated_chart_def black_image_def uniform_masks)
  have inputs: "hsv blue_line_chart \<noteq> None" "trade_lines blue_line_chart \<noteq> None"
    "height blue_line_chart * width blue_line_chart = 40000"
    "hsv annotated_chart \<noteq> None"
    "dict_get (trade_lines annotated_chart) []
       = [(100, 377, 400, 377), (100, 600, 400, 600), (100, 900, 400, 900)]"
    "trade_lines annotated_chart \<noteq> None"
    "height annotated_chart * width annotated_chart = 800000" "width annotated_chart = 800"
    "hsv (black_image 10 10) \<noteq> None" "dict_get (trade_lines (black_image 10 10)) [] = []"
    by (simp_all add: blue_line_chart_def annotated_chart_def black_image_def dict_get_def)
  show ?thesis
    using C3_trigger_rule [of blue_line_chart] C3_trigger_rule [of annotated_chart]
      C3_trigger_rule [of "black_image 10 10"] inputs
    unfolding fractions
    by simp
qed

text \<open>
  Claim C3 as stated fails on a chart 203 pixels wide with three flat segments of 50
  pixels: none is as long as a quarter of the width, no marker colour is present, and the
  detector fires.
\<close>

theorem C3_floor_division_counterexample:
  "has_existing_trade (detect_existing_trade short_lines_chart) = Some True
   \<and> \<not> spec_has_trade short_lines_chart"
  by (simp add: detect_existing_trade_def short_lines_chart_def black_image_def
      uniform_masks Let_def length_horizontal_levels is_flat_def spec_has_trade_def
      spec_level_def blue_fraction_def purple_fraction_def band_fraction_def dict_get_def)

section \<open>The black image\<close>

lemma black_analysis:
  "trend (analyze_trend_colors (black_image h w)) = Some ''neutral''"
  "has_existing_trade (detect_existing_trade (black_image h w)) = Some False"
  "pattern_detected (detect_candlestick_patterns (black_image h w)) = Some False"
  "has_support_resistance (find_support_resistance_levels (black_image h w)) = Some False"
  "trend_direction (analyze_price_action (black_image h w)) = Some ''unclear''"
  "volume_present (analyze_volume_patterns (black_image h w)) = Some False"
  by (simp_all add: black_image_def analyze_trend_colors_def detect_existing_trade_def
      detect_candlestick_patterns_def find_support_resistance_levels_def
      analyze_price_action_def analyze_volume_patterns_def uniform_masks Let_def
      trend_degraded_def existing_degraded_def patterns_degraded_def volume_degraded_def
      horizontal_levels_def sort_desc_def)

text \<open>
  Claim C8. On a black image of any shape the trend is neutral, no candlestick pattern
  and no volume are found, and the signal is sell with confidence exactly 0.75.
\<close>

theorem C8_black_image:
  "trend (analyze_trend_colors (black_image h w)) = Some ''neutral''
   \<and> pattern_detected (detect_candlestick_patterns (black_image h w)) = Some False
   \<and> volume_present (analyze_volume_patterns (black_image h w)) = Some False
   \<and> side (generate_trading_signal (analyze_image (black_image h w))) = ''sell''
   \<and> confidence (generate_trading_signal (analyze_image (black_image h w))) = 0.75"
proof -
  have "accumulate (analyze_image (black_image h w)) = (0, None)"
    by (simp add: accumulate_def analyze_image_def trend_step_def pattern_step_def
        price_step_def levels_step_def black_analysis dict_get_def Let_def)
  then have "generate_trading_signal (analyze_image (black_image h w))
               = weighted_signal (0.7, ''sell'')"
    by (simp add: generate_trading_signal_def analyze_image_def black_analysis dict_get_def
        default_bias_def Let_def)
  then show ?thesis
    by (simp add: black_analysis weighted_signal_def Let_def)
qed

section \<open>Strength and length of levels\<close>

lemma make_level_strength:
  "strength (make_level h w sg) = real_of_int (level_length (make_level h w sg)) / real w"
  by (cases sg) (simp add: make_level_def Let_def)

lemma horizontal_levels_strength:
  assumes "a \<in> set (horizontal_levels h w lns)"
  shows "strength a = real_of_int (level_length a) / real w"
  using assms by (auto simp: horizontal_levels_def make_level_strength)

lemma length_sr_collect: "length acc \<le> length (sr_collect lns acc)"
proof (induction lns acc rule: sr_collect.induct)
  case (1 acc)
  then show ?case by simp
next
  case (2 x1 y1 x2 y2 rest acc)
  then show ?case by (auto simp del: nearly_horizontal_def split: if_splits)
qed

lemma sr_collect_strengths:
  "map sr_strength (sr_collect lns acc)
   = map sr_strength acc
     @ map (\<lambda>k. min 1 (real k * 0.1)) [length acc ..< length (sr_collect lns acc)]"
proof (induction lns acc rule: sr_collect.induct)
  case (1 acc)
  then show ?case by simp
next
  case (2 x1 y1 x2 y2 rest acc)
  show ?case
  proof (cases "nearly_horizontal (x1, y1, x2, y2)")
    case True
    define new where
      "new = \<lparr> sr_y_position = (y1 + y2) div 2,
                sr_length = sqrt (real_of_int ((x2 - x1)\<^sup>2 + (y2 - y1)\<^sup>2)),
                sr_strength = min 1.0 (real (length acc) * 0.1) \<rparr>"
    have step: "sr_collect ((x1, y1, x2, y2) # rest) acc = sr_collect rest (acc @ [new])"
      using True by (simp add: new_def)
    have "length (acc @ [new]) \<le> length (sr_collect rest (acc @ [new]))"
      by (rule length_sr_collect)
    then have lt: "length acc < length (sr_collect rest (acc @ [new]))"
      by simp
    have "map sr_strength (sr_collect rest (acc @ [new]))
            = map sr_strength (acc @ [new])
              @ map (\<lambda>k. min 1 (real k * 0.1))
                  [length (acc @ [new]) ..< length (sr_collect rest (acc @ [new]))]"
      using "2.IH"(1) [OF True] by (simp add: new_def)
    also have "\<dots> = map sr_strength acc
              @ map (\<lambda>k. min 1 (real k * 0.1))
                  [length acc ..< length (sr_collect rest (acc @ [new]))]"
      using lt by (simp add: upt_conv_Cons [of "length acc"] new_def)
    finally show ?thesis
      unfolding step .
  next
    case False
    then show ?thesis
      using "2.IH"(2) [OF False] by simp
  qed
qed

text \<open>
  Claim C7, as amended. Among the levels of the existing-trade detector a level that is
  at least as long as another has at least its strength. The strength of a level of the
  support/resistance finder is the minimum of 1 and a tenth of the number of levels
  accepted before it, whatever its length, and the finder orders its levels by
  descending strength.
\<close>

theorem C7_strength_scores:
  "level_monotone (horizontal_levels h w lns)
   \<and> map sr_strength (sr_collect sr_lns [])
       = map (\<lambda>k. min 1 (real k * 0.1)) [0 ..< length (sr_collect sr_lns [])]
   \<and> sorted (rev (map sr_strength (sort_desc sr_strength (sr_collect sr_lns []))))"
proof -
  have "strength a \<le> strength b"
    if "a \<in> set (horizontal_levels h w lns)" "b \<in> set (horizontal_levels h w lns)"
      "level_length a \<le> level_length b" for a b
    using that by (simp add: horizontal_levels_strength divide_right_mono)
  then have "level_monotone (horizontal_levels h w lns)"
    unfolding level_monotone_def list_all_iff by blast
  moreover have "map sr_strength (sr_collect sr_lns [])
       = map (\<lambda>k. min 1 (real k * 0.1)) [0 ..< length (sr_collect sr_lns [])]"
    using sr_collect_strengths [of sr_lns "[]"] by simp
  moreover have "sorted (rev (map sr_strength (sort_desc sr_strength xs)))" for xs
    by (simp add: sort_desc_def rev_map)
  ultimately show ?thesis by blast
qed

lemma two_lines_collect:
  "sr_collect [(0, 10, 300, 10), (0, 20, 150, 20)] []
   = [\<lparr> sr_y_position = 10, sr_length = sqrt 90000, sr_strength = 0 \<rparr>,
      \<lparr> sr_y_position = 20, sr_length = sqrt 22500, sr_strength = 1 / 10 \<rparr>]"
  by (simp add: nearly_horizontal_def arctan2_def Let_def)

theorem C7_strength_scores_witness:
  "level_monotone (horizontal_levels 1000 800 mixed_lines)
   \<and> map level_length (horizontal_levels 1000 800 mixed_lines) = [300, 250]
   \<and> map strength (horizontal_levels 1000 800 mixed_lines) = [0.375, 0.3125]
   \<and> map sr_strength (sr_collect [(0, 10, 300, 10), (0, 20, 150, 20)] []) = [0, 0.1]"
  using C7_strength_scores [of 1000 800 mixed_lines "[(0, 10, 300, 10), (0, 20, 150, 20)]"]
  by (simp add: two_lines_collect del: sr_collect.simps)
     (simp add: horizontal_levels_def mixed_lines_def is_flat_def make_level_def)

text \<open>
  Claim C7 as stated fails for the support/resistance finder: when the line transform
  reports a segment of 300 pixels before one of 150 pixels, the longer level has
  strength 0 and the shorter one 0.1.
\<close>

theorem C7_support_resistance_counterexample:
  "strong_levels (find_support_resistance_levels two_lines_chart)
     = Some [\<lparr> sr_y_position = 20, sr_length = sqrt 22500, sr_strength = 0.1 \<rparr>,
             \<lparr> sr_y_position = 10, sr_length = sqrt 90000, sr_strength = 0 \<rparr>]
   \<and> sqrt 22500 < sqrt 90000
   \<and> \<not> sr_monotone (dict_get (strong_levels (find_support_resistance_levels two_lines_chart)) [])"
  by (simp add: find_support_resistance_levels_def two_lines_chart_def black_image_def
      two_lines_collect sort_desc_def sr_monotone_def dict_get_def Let_def
      del: sr_collect.simps)

section \<open>The decoder\<close>







end
